theory Spec2Isabelle
  imports Main "HOL-Library.Word" "HOL-Library.Sublist"
begin

unbundle bit_operations_syntax

section \<open>Data model (ca.proto)\<close>

text \<open>
  Go strings are byte sequences: \<^typ>\<open>string\<close> (a list of 8-bit characters), so that
  \<open>len\<close> and indexing count bytes as in the source. A \<open>[]byte\<close> whose bytes are
  computed with is a list of 8-bit words. An \<open>error\<close> value of a collaborator outside
  the repository is its message.
\<close>

type_synonym byte = "8 word"

definition bytes_of :: "string \<Rightarrow> byte list" where
  "bytes_of s = map of_char s"

definition string_of :: "byte list \<Rightarrow> string" where
  "string_of bs = map (\<lambda>b. char_of (unat b)) bs"

datatype ResponseStatus = TAOCA_OK | TAOCA_BAD_REQUEST | TAOCA_REQUEST_DENIED | TAOCA_ERROR

text \<open>\<open>message X509Details\<close>: every field is \<open>optional\<close>, a nil pointer when absent.\<close>

record X509Details =
  CommonName :: "string option"
  Country :: "string option"
  State :: "string option"
  City :: "string option"
  Organization :: "string option"
  OrganizationalUnit :: "string option"
  SerialNumber :: "32 word option"

text \<open>
  \<open>message CSR\<close> and \<open>message Request\<close>: the fields are \<open>required\<close>, so a request
  that \<open>ReadMessage\<close> decoded has all of them; \<open>years\<close> is an \<open>int32\<close>.
\<close>

record CSR =
  PublicKey :: "byte list"
  Name :: X509Details
  Years :: "32 word"
  IsCa :: bool

record Request =
  ReqCSR :: CSR
  Signature :: "byte list option"

text \<open>\<open>message Response\<close>; a \<open>Cert\<close> is its \<open>x509_cert\<close> bytes.\<close>

record Response =
  Status :: ResponseStatus
  ErrorDetail :: "string option"
  Cert :: "byte list list"

section \<open>Library functions of the Go runtime used by the code\<close>

text \<open>
  \<open>unicode.IsSpace\<close> holds of U+0009..U+000D, U+0020, U+0085, U+00A0, U+1680,
  U+2000..U+200A, U+2028, U+2029, U+202F, U+205F and U+3000. \<open>space_runes\<close> lists
  their UTF-8 encodings.
\<close>

definition space_runes :: "string list" where
  "space_runes =
    [[CHR 0x09], [CHR 0x0A], [CHR 0x0B], [CHR 0x0C], [CHR 0x0D], [CHR 0x20],
     [CHR 0xC2, CHR 0x85], [CHR 0xC2, CHR 0xA0], [CHR 0xE1, CHR 0x9A, CHR 0x80],
     [CHR 0xE2, CHR 0x80, CHR 0x80], [CHR 0xE2, CHR 0x80, CHR 0x81],
     [CHR 0xE2, CHR 0x80, CHR 0x82], [CHR 0xE2, CHR 0x80, CHR 0x83],
     [CHR 0xE2, CHR 0x80, CHR 0x84], [CHR 0xE2, CHR 0x80, CHR 0x85],
     [CHR 0xE2, CHR 0x80, CHR 0x86], [CHR 0xE2, CHR 0x80, CHR 0x87],
     [CHR 0xE2, CHR 0x80, CHR 0x88], [CHR 0xE2, CHR 0x80, CHR 0x89],
     [CHR 0xE2, CHR 0x80, CHR 0x8A], [CHR 0xE2, CHR 0x80, CHR 0xA8],
     [CHR 0xE2, CHR 0x80, CHR 0xA9], [CHR 0xE2, CHR 0x80, CHR 0xAF],
     [CHR 0xE2, CHR 0x81, CHR 0x9F], [CHR 0xE3, CHR 0x80, CHR 0x80]]"

text \<open>
  \<open>strip_one rs s\<close>: the rest of \<open>s\<close> after the first sequence of \<open>rs\<close> that \<open>s\<close>
  starts with, when there is one and it is not empty.
\<close>

fun strip_one :: "string list \<Rightarrow> string \<Rightarrow> string option" where
  "strip_one [] s = None"
| "strip_one (r # rs) s =
     (if r \<noteq> [] \<and> prefix r s then Some (drop (length r) s) else strip_one rs s)"

lemma strip_one_shorter: "strip_one rs s = Some t \<Longrightarrow> length t < length s"
  by (induction rs) (auto split: if_splits simp: prefix_def)

function trim_runes :: "string list \<Rightarrow> string \<Rightarrow> string" where
  "trim_runes rs s = (case strip_one rs s of None \<Rightarrow> s | Some t \<Rightarrow> trim_runes rs t)"
  by pat_completeness auto
termination
  by (relation "measure (\<lambda>(rs, s). length s)") (auto dest: strip_one_shorter)

declare trim_runes.simps [simp del]

text \<open>\<open>strings.TrimSpace\<close>: white space is cut from the front, then from the back.\<close>

definition TrimSpace :: "string \<Rightarrow> string" where
  "TrimSpace s = rev (trim_runes (map rev space_runes) (rev (trim_runes space_runes s)))"

text \<open>\<open>fmt.Sprintf("%x", h)\<close> of a byte array: two lower-case hexadecimal digits a byte.\<close>

definition hexdigit :: "nat \<Rightarrow> char" where
  "hexdigit n = ''0123456789abcdef'' ! (n mod 16)"

definition hex :: "byte list \<Rightarrow> string" where
  "hex bs = concat (map (\<lambda>b. [hexdigit (unat b div 16), hexdigit (unat b mod 16)]) bs)"

section \<open>Serial numbers (cmd/taoca/server.go, doResponse, lines 324 to 326)\<close>

text \<open>
  \<open>if serial < 0 { serial = ^serial }\<close> on an \<open>int64\<close>: \<open><s\<close> is the signed
  comparison and \<open>NOT\<close> the bitwise complement.
\<close>

definition fold_serial :: "64 word \<Rightarrow> 64 word" where
  "fold_serial serial = (if serial <s 0 then NOT serial else serial)"

section \<open>The certificate-policy extension (x509.go)\<close>

text \<open>
  An \<open>asn1.ObjectIdentifier\<close> is its list of arcs. \<open>policyQualifierInfo\<close> and
  \<open>policyQualifierInfoSequence\<close> are the two struct types that the code puts into the
  \<open>[]interface{}\<close> of qualifiers. \<open>pkix.Extension\<close> has the fields \<open>Id\<close>,
  \<open>Critical\<close> and \<open>Value\<close>.
\<close>

datatype qualifier =
  policyQualifierInfo "nat list" string
| policyQualifierInfoSequence "nat list" "string list"

record policyInformation =
  PolicyIdentifier :: "nat list"
  PolicyQualifiers :: "qualifier list"

record Extension =
  Id_oid :: "nat list"
  Critical :: bool
  Value :: "byte list"

datatype error =
  LibError string
| UnexpectedAsn1Encoding int "byte list"
| FirstLineMissing string
| UnexpectedFirstLine string string
| RuleError string string string

definition idCertificatePolicies :: "nat list" where
  "idCertificatePolicies = [2, 5, 29, 32]"

definition idQtCertificationPracticeStatement :: "nat list" where
  "idQtCertificationPracticeStatement = [1, 3, 6, 1, 5, 5, 7, 2, 1]"

definition idQtUnotice :: "nat list" where
  "idQtUnotice = [1, 3, 6, 1, 5, 5, 7, 2, 2]"

definition idSubjectIdentityValidated :: "nat list" where
  "idSubjectIdentityValidated = [2, 23, 140, 1, 2, 2]"

definition asn1PrintableStringTag :: byte where
  "asn1PrintableStringTag = 19"

definition asn1VisibleStringTag :: byte where
  "asn1VisibleStringTag = 26"

text \<open>
  \<open>NewCertficationPolicy\<close> (x509.go, lines 97 to 131). \<open>asn1.Marshal\<close> belongs to
  the Go library: it is the parameter \<open>marshal\<close>, \<open>Inl\<close> when it returns an error.
  \<open>i\<close> is a Go \<open>int\<close> and can be negative; the \<open>||\<close> chain is evaluated left to
  right, so both index expressions are only reached with \<open>2 \<le> i\<close>, where they are
  within the slice. \<open>policy_info\<close> is the value \<open>pi\<close> of lines 98 to 112.
\<close>

definition policy_info :: "string \<Rightarrow> string \<Rightarrow> policyInformation list" where
  "policy_info cps unotice =
    [\<lparr>PolicyIdentifier = idSubjectIdentityValidated,
      PolicyQualifiers =
        [policyQualifierInfo idQtCertificationPracticeStatement cps,
         policyQualifierInfoSequence idQtUnotice [unotice]]\<rparr>]"

definition NewCertficationPolicy ::
  "(policyInformation list \<Rightarrow> string + byte list) \<Rightarrow> string \<Rightarrow> string \<Rightarrow> error + Extension" where
  "NewCertficationPolicy marshal cps unotice =
    (let pi = policy_info cps unotice
     in case marshal pi of
          Inl err \<Rightarrow> Inl (LibError err)
        | Inr asn1Bytes \<Rightarrow>
            (let i = int (length asn1Bytes) - int (length unotice)
             in if i < 2 \<or> uint (asn1Bytes ! nat (i - 1)) \<noteq> int (length unotice)
                     \<or> asn1Bytes ! nat (i - 2) \<noteq> asn1PrintableStringTag
                then Inl (UnexpectedAsn1Encoding i asn1Bytes)
                else Inr \<lparr>Id_oid = idCertificatePolicies, Critical = False,
                          Value = asn1Bytes[nat (i - 2) := asn1VisibleStringTag]\<rparr>))"

section \<open>The ASN.1 marshaller (encoding/asn1 of the Go library)\<close>

text \<open>
  \<open>asn1.Marshal\<close> is not part of the repository. Its model here follows the library's
  \<open>marshal.go\<close> for the three struct types of x509.go, and with it the DER rules of
  X.690: a value is its identifier byte, its length and its contents; a length below 128
  is one byte, a longer one is \<open>0x80\<close> plus the count of the big-endian bytes that
  follow; a \<open>SEQUENCE\<close> has the identifier \<open>0x30\<close>; a string field tagged \<open>ia5\<close>
  is an IA5String (22) and must be ASCII; a string field with no tag is a
  PrintableString (19) when each of its bytes is in the PrintableString alphabet, and
  a UTF8String (12) otherwise, which must be valid UTF-8.
\<close>

definition sum_bind :: "'e + 'a \<Rightarrow> ('a \<Rightarrow> 'e + 'b) \<Rightarrow> 'e + 'b" where
  "sum_bind m f = (case m of Inl err \<Rightarrow> Inl err | Inr v \<Rightarrow> f v)"

fun sum_mapM :: "('a \<Rightarrow> 'e + 'b) \<Rightarrow> 'a list \<Rightarrow> 'e + 'b list" where
  "sum_mapM f [] = Inr []"
| "sum_mapM f (x # xs) =
     sum_bind (f x) (\<lambda>y. sum_bind (sum_mapM f xs) (\<lambda>ys. Inr (y # ys)))"

fun base256 :: "nat \<Rightarrow> byte list" where
  "base256 n = (if n < 256 then [of_nat n] else base256 (n div 256) @ [of_nat (n mod 256)])"

declare base256.simps [simp del]

definition der_length :: "nat \<Rightarrow> byte list" where
  "der_length n =
    (if n < 128 then [of_nat n] else of_nat (128 + length (base256 n)) # base256 n)"

definition tlv :: "byte \<Rightarrow> byte list \<Rightarrow> byte list" where
  "tlv tag contents = tag # der_length (length contents) @ contents"

fun base128_hi :: "nat \<Rightarrow> byte list" where
  "base128_hi n = (if n = 0 then [] else base128_hi (n div 128) @ [of_nat (128 + n mod 128)])"

declare base128_hi.simps [simp del]

definition base128 :: "nat \<Rightarrow> byte list" where
  "base128 n = base128_hi (n div 128) @ [of_nat (n mod 128)]"

definition marshalObjectIdentifier :: "nat list \<Rightarrow> string + byte list" where
  "marshalObjectIdentifier oid =
    (case oid of
       a # b # arcs \<Rightarrow>
         if 2 < a \<or> (a < 2 \<and> 40 \<le> b)
         then Inl ''asn1: structure error: invalid object identifier''
         else Inr (tlv 6 (base128 (a * 40 + b) @ concat (map base128 arcs)))
     | _ \<Rightarrow> Inl ''asn1: structure error: invalid object identifier'')"

text \<open>The PrintableString alphabet, as \<open>isPrintable\<close> accepts it when marshalling.\<close>

definition isPrintable :: "char \<Rightarrow> bool" where
  "isPrintable c =
    List.member ''abcdefghijklmnopqrstuvwxyzABCDEFGHIJKLMNOPQRSTUVWXYZ0123456789'()+,-./ :=?'' c"

text \<open>\<open>utf8.ValidString\<close>, on the bytes as numbers.\<close>

fun utf8_valid :: "nat list \<Rightarrow> bool" where
  "utf8_valid [] = True"
| "utf8_valid (a # bs) =
    (if a < 0x80 then utf8_valid bs
     else if 0xC2 \<le> a \<and> a \<le> 0xDF then
       (case bs of b # r \<Rightarrow> 0x80 \<le> b \<and> b \<le> 0xBF \<and> utf8_valid r | _ \<Rightarrow> False)
     else if 0xE0 \<le> a \<and> a \<le> 0xEF then
       (case bs of
          b # c # r \<Rightarrow>
            (if a = 0xE0 then 0xA0 else 0x80) \<le> b \<and> b \<le> (if a = 0xED then 0x9F else 0xBF)
            \<and> 0x80 \<le> c \<and> c \<le> 0xBF \<and> utf8_valid r
        | _ \<Rightarrow> False)
     else if 0xF0 \<le> a \<and> a \<le> 0xF4 then
       (case bs of
          b # c # d # r \<Rightarrow>
            (if a = 0xF0 then 0x90 else 0x80) \<le> b \<and> b \<le> (if a = 0xF4 then 0x8F else 0xBF)
            \<and> 0x80 \<le> c \<and> c \<le> 0xBF \<and> 0x80 \<le> d \<and> d \<le> 0xBF \<and> utf8_valid r
        | _ \<Rightarrow> False)
     else False)"

definition marshal_string :: "string \<Rightarrow> string + byte list" where
  "marshal_string s =
    (if list_all isPrintable s then Inr (tlv 19 (bytes_of s))
     else if utf8_valid (map of_char s) then Inr (tlv 12 (bytes_of s))
     else Inl ''asn1: string not valid UTF-8'')"

definition marshal_ia5 :: "string \<Rightarrow> string + byte list" where
  "marshal_ia5 s =
    (if list_ex (\<lambda>c. (128::nat) \<le> of_char c) s
     then Inl ''asn1: structure error: IA5String contains invalid character''
     else Inr (tlv 22 (bytes_of s)))"

fun marshal_qualifier :: "qualifier \<Rightarrow> string + byte list" where
  "marshal_qualifier (policyQualifierInfo oid q) =
     sum_bind (marshalObjectIdentifier oid) (\<lambda>ob.
     sum_bind (marshal_ia5 q) (\<lambda>v. Inr (tlv 48 (ob @ v))))"
| "marshal_qualifier (policyQualifierInfoSequence oid qs) =
     sum_bind (marshalObjectIdentifier oid) (\<lambda>ob.
     sum_bind (sum_mapM marshal_string qs) (\<lambda>vs. Inr (tlv 48 (ob @ tlv 48 (concat vs)))))"

definition marshal_policyInformation :: "policyInformation \<Rightarrow> string + byte list" where
  "marshal_policyInformation p =
     sum_bind (marshalObjectIdentifier (PolicyIdentifier p)) (\<lambda>ob.
     sum_bind (sum_mapM marshal_qualifier (PolicyQualifiers p)) (\<lambda>qs.
       Inr (tlv 48 (ob @ (if PolicyQualifiers p = [] then [] else tlv 48 (concat qs))))))"

definition asn1_Marshal :: "policyInformation list \<Rightarrow> string + byte list" where
  "asn1_Marshal pi =
     sum_bind (sum_mapM marshal_policyInformation pi) (\<lambda>ps. Inr (tlv 48 (concat ps)))"

section \<open>The request handler (cmd/taoca/server.go)\<close>

definition cpsTemplate :: string where
  "cpsTemplate = concat
    [''Experimental Cloudproxy HTTPS Certificate Authority\<newline>'',
     ''** Certification Practices Statement **\<newline>'',
     ''\<newline>'',
     ''This document specifies the practices and policies under which certificate\<newline>'',
     ''signing requests are approved by some instance of the Experimental Cloudproxy\<newline>'',
     ''HTTPS Certificate Authority.\<newline>'',
     ''\<newline>'',
     ''Document Integrity\<newline>'',
     ''------------------\<newline>'',
     ''\<newline>'',
     ''This document should be hosted as a file with name <hhh>.txt where <hhh> is the\<newline>'',
     ''sha256 hash of this document. If the document hash does not match the file name,\<newline>'',
     ''then the contents of this document should not be trusted.\<newline>'',
     ''\<newline>'',
     ''Policies\<newline>'',
     ''--------\<newline>'',
     ''\<newline>'',
     ''* Certificates issued will include extended validation (EV) information,\<newline>'',
     ''  including links to this document and a user notice document under the\<newline>'',
     ''  id-qt-cps and id-qt-unotice extensions. The user notice document will include\<newline>'',
     ''  details about the circumstances under which the certificate was issued.\<newline>'']"

definition cpsManual :: string where
  "cpsManual = concat
    [''\<newline>'',
     ''* Certificate signing requests are vetted and approved manually by the holder of\<newline>'',
     ''  the certficiate authority private signing key.\<newline>'']"

definition cpsACL :: string where
  "cpsACL = concat
    [''\<newline>'',
     ''* Certificate signing requests are approved automatically to principals\<newline>'',
     ''  as described in the following access-control list:\<newline>'']"

definition cpsDatalog :: string where
  "cpsDatalog = concat
    [''\<newline>'',
     ''* Certificate signing requests are approved automatically to principals\<newline>'',
     ''  as described by to the following datalog rules:\<newline>'']"

definition unoticeTemplate :: string where
  "unoticeTemplate = concat
    [''Experimental Cloudproxy HTTPS Certificate Authority\<newline>'',
     ''** User Notice **\<newline>'',
     ''\<newline>'',
     ''This document details the circumstances under which some certificate was issued\<newline>'',
     ''by some instance of the Experimental Cloudproxy HTTPS Certificate Authority.\<newline>'',
     ''\<newline>'',
     ''Document Integrity\<newline>'',
     ''------------------\<newline>'',
     ''\<newline>'',
     ''This document should be hosted as a file with name <hhh>.txt where <hhh> is the\<newline>'',
     ''sha256 hash of this document. If the document hash does not match the file name,\<newline>'',
     ''then the contents of this document should not be trusted.\<newline>'',
     ''\<newline>'',
     ''Issuance Details\<newline>'',
     ''----------------\<newline>'',
     ''\<newline>'']"

text \<open>
  Collaborators outside the repository, as the handler sees them during one connection:
  the message stream and the peer of \<open>tao.Conn\<close>, the key decoders, the random source,
  the operator's answers to \<open>options.Confirm\<close>, the operations of \<open>tao.Guard\<close>, the
  document store, the ASN.1 marshaller and the signing keys. \<open>'g\<close> is the guard,
  \<open>'ck\<close> a decoded \<open>tao.CryptoKey\<close> and \<open>'k\<close> a \<open>tao.Verifier\<close>.
  A principal is the text that \<open>String\<close> and \<open>%v\<close> render it as, with the texts that
  \<open>%v\<close> renders for the \<open>auth.PrinTail\<close> of each of its extensions.
\<close>

record Prin =
  PrinText :: string
  Ext :: "string list"

record pkix_Name =
  nCountry :: "string list"
  nOrganization :: "string list"
  nOrganizationalUnit :: "string list"
  nProvince :: "string list"
  nLocality :: "string list"
  nCommonName :: string

text \<open>The fields of the \<open>x509.Certificate\<close> template that the handler is seen to set.\<close>

record Template =
  Subject :: pkix_Name
  ExtraExtensions :: "Extension list"
  IsCA :: bool
  TemplateSerialNumber :: int

record ('g, 'ck, 'k) env =
  ReadMessage :: "string + Request"
  Peer :: "Prin option"
  ProtoUnmarshal :: "byte list \<Rightarrow> string + 'ck"
  UnmarshalVerifierProto :: "'ck \<Rightarrow> string + 'k"
  RandRead :: "string + 64 word"
  manualMode :: bool
  Confirm :: "string list"
  learnMode :: bool
  AddRule :: "'g \<Rightarrow> string \<Rightarrow> 'g \<times> string option"
  IsAuthorized :: "'g \<Rightarrow> Prin \<Rightarrow> string \<Rightarrow> string list \<Rightarrow> bool"
  GuardString :: "'g \<Rightarrow> string"
  IsACLGuard :: "'g \<Rightarrow> bool"
  docurl :: string
  docdir :: string
  Sum256 :: "byte list \<Rightarrow> byte list"
  PathJoin :: "string \<Rightarrow> string \<Rightarrow> string"
  WritePath :: "string \<Rightarrow> byte list \<Rightarrow> string option"
  Marshal :: "policyInformation list \<Rightarrow> string + byte list"
  CreateSignedX509 :: "'k \<Rightarrow> Template \<Rightarrow> string + byte list"
  CertChain :: "byte list list"

text \<open>The package variables that the handler reads and writes: \<open>knownHashes\<close>, \<open>policy\<close>.\<close>

record 'g globals =
  knownHashes :: "string set"
  policy :: 'g

text \<open>
  How a call of the handler ends: it returns its boolean, or it waits for ever for an
  answer of the operator, or it panics on a nil pointer.
\<close>

datatype outcome = Returned bool | Blocked | Panicked

text \<open>
  \<open>sendResponse\<close> (lines 177 to 182) writes one message to the stream, here the list of
  the messages written so far; a write error is only printed. \<open>doError\<close> (lines 165 to
  175) prints and sends a response made of the status and the detail.
\<close>

definition sendResponse :: "Response list \<Rightarrow> Response \<Rightarrow> Response list" where
  "sendResponse ms resp = ms @ [resp]"

definition doError :: "Response list \<Rightarrow> error option \<Rightarrow> ResponseStatus \<Rightarrow> string \<Rightarrow> Response list" where
  "doError ms err status detail =
     sendResponse ms \<lparr>Status = status, ErrorDetail = Some detail, Cert = []\<rparr>"

definition legalChars :: string where
  "legalChars = ''abcdefghijklmnopqrstuvwxyzABCDEFGHIJKLMNOPQRSTUVWXYZ1234567890,:.()_/ ''"

text \<open>
  \<open>sanitize\<close> (lines 186 to 209): the result is the returned string with the new value
  of \<open>*errmsg\<close>. \<open>rune((*s)[i])\<close> is the byte as a code point, so a byte is legal
  exactly when it is one of the bytes of \<open>legalChars\<close>.
\<close>

definition sanitize :: "string option \<Rightarrow> string \<Rightarrow> string \<Rightarrow> string \<times> string" where
  "sanitize s fieldName errmsg =
    (if errmsg \<noteq> [] then ([], errmsg)
     else case s of
       None \<Rightarrow> ([], ''missing name.'' @ fieldName)
     | Some v \<Rightarrow>
         if v = [] then ([], ''empty name.'' @ fieldName)
         else if list_ex (\<lambda>c. \<not> List.member legalChars c) v
           then ([], ''invalid characters in name.'' @ fieldName)
         else if v \<noteq> TrimSpace v then ([], ''invalid whitespace in name.'' @ fieldName)
         else (v, errmsg))"

text \<open>
  \<open>publish\<close> (lines 226 to 242): the URL and the error, \<open>url\<close> being the empty string
  when writing fails.
\<close>

definition publish :: "('g, 'ck, 'k) env \<Rightarrow> byte list \<Rightarrow> string \<times> string option" where
  "publish e doc =
    (let h = Sum256 e doc;
         p = PathJoin e (docdir e) (hex h @ ''.txt'')
     in case WritePath e p doc of
          Some err \<Rightarrow> ([], Some err)
        | None \<Rightarrow>
            (let docurl' = (if \<not> suffix ''/'' (docurl e) then docurl e @ ''/'' else docurl e)
             in (docurl' @ hex h @ ''.txt'', None)))"

text \<open>\<open>NewX509Name\<close> (lines 256 to 265); a getter of an absent field gives the empty string.\<close>

definition getter :: "string option \<Rightarrow> string" where
  "getter f = (case f of None \<Rightarrow> [] | Some v \<Rightarrow> v)"

definition NewX509Name :: "X509Details \<Rightarrow> pkix_Name" where
  "NewX509Name p =
    \<lparr>nCountry = [getter (Country p)],
     nOrganization = [getter (Organization p)],
     nOrganizationalUnit = [getter (OrganizationalUnit p)],
     nProvince = [getter (State p)],
     nLocality = [getter (City p)],
     nCommonName = getter (CommonName p)\<rparr>"

text \<open>
  The checks of the request (\<open>doResponse\<close>, lines 287 to 300): the six calls of
  \<open>sanitize\<close> that share \<open>errmsg\<close>, then the check of \<open>years\<close>. The result is
  \<open>ou\<close>, \<open>cn\<close> and the final \<open>errmsg\<close>.
\<close>

definition check_csr :: "CSR \<Rightarrow> string \<times> string \<times> string" where
  "check_csr csr =
    (let name = Name csr;
         errmsg = [];
         (x1, errmsg) = sanitize (Country name) ''Country'' errmsg;
         (x2, errmsg) = sanitize (State name) ''State/Province'' errmsg;
         (x3, errmsg) = sanitize (City name) ''City/Locality'' errmsg;
         (x4, errmsg) = sanitize (Organization name) ''Organization'' errmsg;
         (ou, errmsg) = sanitize (OrganizationalUnit name) ''OrganizationalUnit'' errmsg;
         (cn, errmsg) = sanitize (CommonName name) ''CommonName'' errmsg;
         years = Years csr;
         errmsg = (if years \<le>s 0 then ''invalid validity period'' else errmsg)
     in (ou, cn, errmsg))"

text \<open>
  The prompt loop of manual mode (lines 337 to 343) over the operator's answers: the
  first answer that is \<open>yes\<close> or \<open>no\<close>; \<open>None\<close> when no such answer ever comes.
\<close>

fun confirm_loop :: "string list \<Rightarrow> string option" where
  "confirm_loop [] = None"
| "confirm_loop (ok # answers) =
     (if ok = ''yes'' \<or> ok = ''no'' then Some ok else confirm_loop answers)"

text \<open>Learn mode (lines 361 to 377).\<close>

definition learn :: "('g, 'ck, 'k) env \<Rightarrow> 'g globals \<Rightarrow> Prin \<Rightarrow> 'g globals" where
  "learn e st prin =
    (if Ext prin \<noteq> [] then
       (let tail = last (Ext prin);
            prinHash = ''Known('' @ tail @ '')''
        in if prinHash \<notin> knownHashes st
           then st\<lparr>knownHashes := insert prinHash (knownHashes st),
                   policy := fst (AddRule e (policy st) prinHash)\<rparr>
           else st)
     else st)"

text \<open>
  The end of the handler (lines 396 to 440), from the two documents to the response:
  \<open>ms\<close> holds what was sent before. The errors of the two calls of \<open>publish\<close> are
  assigned to \<open>err\<close> and overwritten by the next assignment.
\<close>

definition issue ::
  "('g, 'ck, 'k) env \<Rightarrow> Response list \<Rightarrow> CSR \<Rightarrow> 'k \<Rightarrow> 64 word \<Rightarrow> string \<Rightarrow> Response list \<times> outcome" where
  "issue e ms csr subjectKey serial cps =
    (let unotice =
           (case Peer e of
              Some p \<Rightarrow> unoticeTemplate
                @ ''* The certificate was requested by the following Tao principal:\<newline>\<newline>   ''
                @ PrinText p @ ''\<newline>''
            | None \<Rightarrow> unoticeTemplate @ ''* The certificate was requested anonymously.\<newline>'');
         (cpsUrl, err) = publish e (bytes_of cps);
         (unoticeUrl, err) = publish e (bytes_of unotice)
     in case NewCertficationPolicy (Marshal e) cpsUrl unoticeUrl of
          Inl err \<Rightarrow>
            (doError ms (Some err) TAOCA_ERROR ''failed to generate certificate policy extension'',
             Returned False)
        | Inr ext \<Rightarrow>
            (let template = \<lparr>Subject = NewX509Name (Name csr), ExtraExtensions = [ext],
                              IsCA = IsCa csr, TemplateSerialNumber = sint serial\<rparr>
             in case CreateSignedX509 e subjectKey template of
                  Inl err \<Rightarrow>
                    (doError ms (Some (LibError err)) TAOCA_ERROR ''failed to generate certificate'',
                     Returned False)
                | Inr cert \<Rightarrow>
                    (let resp = \<lparr>Status = TAOCA_OK, ErrorDetail = None, Cert = [cert]\<rparr>;
                         resp = foldl (\<lambda>r parent. r\<lparr>Cert := Cert r @ [parent]\<rparr>) resp (CertChain e)
                     in (sendResponse ms resp, Returned True))))"

text \<open>
  The approval (lines 333 to 393) and what follows it, from the moment the serial number
  is made.
\<close>

definition approve ::
  "('g, 'ck, 'k) env \<Rightarrow> 'g globals \<Rightarrow> Response list \<Rightarrow> CSR \<Rightarrow> 'k \<Rightarrow> 64 word
     \<Rightarrow> Response list \<times> outcome \<times> 'g globals" where
  "approve e st ms csr subjectKey serial =
    (if manualMode e then
       (case confirm_loop (Confirm e) of
          None \<Rightarrow> (ms, Blocked, st)
        | Some ok \<Rightarrow>
            if ok \<noteq> ''yes''
            then (doError ms None TAOCA_REQUEST_DENIED ''request is denied'', Returned False, st)
            else (let (ms', r) = issue e ms csr subjectKey serial (cpsTemplate @ cpsManual)
                  in (ms', r, st)))
     else
       (case Peer e of
          None \<Rightarrow>
            (doError ms None TAOCA_REQUEST_DENIED ''anonymous request is denied'',
             Returned False, st)
        | Some prin \<Rightarrow>
            (let st = (if learnMode e then learn e st prin else st)
             in case (OrganizationalUnit (Name csr), CommonName (Name csr)) of
                  (Some ou, Some cn) \<Rightarrow>
                    if \<not> IsAuthorized e (policy st) prin ''ClaimCertificate'' [ou, cn]
                       \<and> \<not> IsAuthorized e (policy st) prin ''ClaimCertificate'' []
                    then (doError ms None TAOCA_REQUEST_DENIED ''request is denied'',
                          Returned False, st)
                    else
                      (let cps = (if IsACLGuard e (policy st) then cpsTemplate @ cpsACL
                                  else cpsTemplate @ cpsDatalog);
                           cps = cps @ ''\<newline>'' @ GuardString e (policy st);
                           (ms', r) = issue e ms csr subjectKey serial cps
                       in (ms', r, st))
                | _ \<Rightarrow> (ms, Panicked, st))))"

text \<open>
  \<open>doResponse\<close> (lines 267 to 441): the messages written to the connection, in order,
  how the call ends, and the package variables afterwards. When \<open>binary.Read\<close> fails
  (line 321) \<open>serial\<close> keeps its zero value, the error response is sent, and the
  handler goes on, as no \<open>return\<close> follows that \<open>doError\<close>.
\<close>

definition doResponse ::
  "('g, 'ck, 'k) env \<Rightarrow> 'g globals \<Rightarrow> Response list \<times> outcome \<times> 'g globals" where
  "doResponse e st =
    (case ReadMessage e of
       Inl err \<Rightarrow>
         (doError [] (Some (LibError err)) TAOCA_BAD_REQUEST ''failed to read request'', Returned False, st)
     | Inr req \<Rightarrow>
         (let (ou, cn, errmsg) = check_csr (ReqCSR req)
          in if errmsg \<noteq> []
             then (doError [] None TAOCA_BAD_REQUEST errmsg, Returned False, st)
             else
               (case ProtoUnmarshal e (PublicKey (ReqCSR req)) of
                  Inl err \<Rightarrow>
                    (doError [] (Some (LibError err)) TAOCA_BAD_REQUEST ''can't unmarshal key'',
                     Returned False, st)
                | Inr ck \<Rightarrow>
                    (case UnmarshalVerifierProto e ck of
                       Inl err \<Rightarrow>
                         (doError [] (Some (LibError err)) TAOCA_BAD_REQUEST ''can't unmarshal key'',
                          Returned False, st)
                     | Inr subjectKey \<Rightarrow>
                         (let (ms, serial) =
                                (case RandRead e of
                                   Inl err \<Rightarrow>
                                     (doError [] (Some (LibError err)) TAOCA_ERROR
                                        ''could not generate random serial number'', 0)
                                 | Inr v \<Rightarrow> ([], v));
                              serial = fold_serial serial
                          in approve e st ms (ReqCSR req) subjectKey serial)))))"

section \<open>The rule-file scanner (package policy)\<close>

text \<open>
  The regular expression \<open>continuations\<close> is \<^verbatim>\<open>\\?\r?\n\<close>: an optional backslash, an
  optional carriage return, a line feed. \<open>ReplaceAll(data, nil)\<close> deletes its matches,
  the leftmost first, each as long as possible.
\<close>

fun ReplaceAll :: "string \<Rightarrow> string" where
  "ReplaceAll [] = []"
| "ReplaceAll (c # cs) =
    (if prefix [CHR 0x5C, CHR 0x0D, CHR 0x0A] (c # cs) then ReplaceAll (drop 2 cs)
     else if prefix [CHR 0x5C, CHR 0x0A] (c # cs) then ReplaceAll (drop 1 cs)
     else if prefix [CHR 0x0D, CHR 0x0A] (c # cs) then ReplaceAll (drop 1 cs)
     else if c = CHR 0x0A then ReplaceAll cs
     else c # ReplaceAll cs)"

text \<open>
  \<open>unicode.IsSpace(rune(b))\<close> of one byte \<open>b\<close>, which is a code point below 256: the
  ASCII white space, U+0085 and U+00A0.
\<close>

definition IsSpace_byte :: "char \<Rightarrow> bool" where
  "IsSpace_byte c =
    List.member [CHR 0x09, CHR 0x0A, CHR 0x0B, CHR 0x0C, CHR 0x0D, CHR 0x20, CHR 0x85, CHR 0xA0] c"

text \<open>
  \<open>split\<close> (lines 45 to 85): \<open>advance\<close> and the token, \<open>None\<close> for a nil token; the
  error is always nil. Each \<open>for\<close> loop looks for the first index from \<open>i\<close> on at
  which it returns. \<open>ReplaceAll\<close> returns nil when nothing is left: line 70 turns
  that into an empty token, line 80 does not.
\<close>

definition split :: "string \<Rightarrow> bool \<Rightarrow> nat \<times> string option" where
  "split data atEOF =
    (if atEOF \<and> length data = 0 then (0, None)
     else
       (let i = length (takeWhile (\<lambda>c. IsSpace_byte c \<and> c \<noteq> CHR 0x0A) data)
        in if i < length data \<and> data ! i = CHR ''#'' then
             (case find (\<lambda>j. data ! j = CHR 0x0A) [i..<length data] of
                Some j \<Rightarrow> (j, Some [])
              | None \<Rightarrow> if atEOF then (length data, Some []) else (0, None))
           else
             (case find (\<lambda>j. data ! j = CHR 0x0A \<and> (j = 0 \<or> data ! (j - 1) \<noteq> CHR 0x5C))
                     [i..<length data] of
                Some j \<Rightarrow> (j + 1, Some (ReplaceAll (take (j + 1) data)))
              | None \<Rightarrow>
                  if atEOF
                  then (length data,
                        if ReplaceAll data = [] then None else Some (ReplaceAll data))
                  else (0, None))))"

text \<open>
  \<open>bufio.Scanner\<close> belongs to the Go library. A scanner over a file is the input that
  it has not consumed yet, and whether its \<open>err\<close> is set (\<open>errSet\<close>) (the end of the file was seen,
  or a token was too long). \<open>Scan\<close> offers \<open>split\<close> the unconsumed bytes that fit its
  buffer, at most \<open>MaxScanTokenSize\<close>, with \<open>atEOF\<close> false; when \<open>split\<close> wants more
  and the buffer is full, \<open>Scan\<close> stops with \<open>ErrTooLong\<close> and keeps its buffer; when
  it wants more and the file is exhausted, \<open>split\<close> is called again with \<open>atEOF\<close> true.
  A nil token with \<open>err\<close> set ends the scan and empties the buffer. The result is
  whether a token was found, the token, and the scanner afterwards.
\<close>

definition MaxScanTokenSize :: nat where
  "MaxScanTokenSize = 64 * 1024"

record Scanner =
  buf :: string
  errSet :: bool

definition scan_at_end :: "string \<Rightarrow> bool \<times> string \<times> Scanner" where
  "scan_at_end data =
    (case split data True of
       (advance, Some token) \<Rightarrow> (True, token, \<lparr>buf = drop advance data, errSet = True\<rparr>)
     | (advance, None) \<Rightarrow> (False, [], \<lparr>buf = [], errSet = True\<rparr>))"

definition Scan :: "Scanner \<Rightarrow> bool \<times> string \<times> Scanner" where
  "Scan s =
    (if errSet s then scan_at_end (buf s)
     else
       (case split (take MaxScanTokenSize (buf s)) False of
          (advance, Some token) \<Rightarrow> (True, token, s\<lparr>buf := drop advance (buf s)\<rparr>)
        | (advance, None) \<Rightarrow>
            if MaxScanTokenSize \<le> length (buf s)
            then (False, [], \<lparr>buf = take MaxScanTokenSize (buf s), errSet = True\<rparr>)
            else scan_at_end (buf s)))"

text \<open>
  \<open>NewScanner\<close> (lines 33 to 41): \<open>os.Open\<close> is the parameter \<open>open_file\<close>, from a
  path to an error or the bytes of the file.
\<close>

definition NewScanner :: "(string \<Rightarrow> string + string) \<Rightarrow> string \<Rightarrow> string + Scanner" where
  "NewScanner open_file path =
    (case open_file path of
       Inl e \<Rightarrow> Inl e
     | Inr contents \<Rightarrow> Inr \<lparr>buf = contents, errSet = False\<rparr>)"

lemma split_advance: "split data atEOF = (adv, Some tok) \<Longrightarrow> 0 < adv \<and> data \<noteq> []"
proof -
  assume a: "split data atEOF = (adv, Some tok)"
  then have ne: "data \<noteq> []"
    by (auto simp: split_def Let_def split: if_splits option.splits)
  have "adv \<noteq> 0"
  proof
    assume "adv = 0"
    with a ne show False
      by (auto simp: split_def Let_def find_Some_iff split: if_splits option.splits)
  qed
  with ne show ?thesis by simp
qed

lemma Scan_shorter: "Scan s = (True, tok, s') \<Longrightarrow> length (buf s') < length (buf s)"
proof -
  assume a: "Scan s = (True, tok, s')"
  have e: "scan_at_end data = (True, tok, s') \<Longrightarrow> length (buf s') < length data" for data
    by (auto simp: scan_at_end_def split: prod.splits option.splits dest!: split_advance)
  show ?thesis
  proof (cases "errSet s")
    case True
    with a e show ?thesis by (simp add: Scan_def)
  next
    case False
    obtain adv t where sp: "split (take MaxScanTokenSize (buf s)) False = (adv, t)"
      by (cases "split (take MaxScanTokenSize (buf s)) False")
    show ?thesis
    proof (cases t)
      case None
      with a False sp e show ?thesis
        by (auto simp: Scan_def split: if_splits)
    next
      case (Some token)
      from sp [unfolded Some] have "0 < adv \<and> take MaxScanTokenSize (buf s) \<noteq> []"
        by (rule split_advance)
      then have "0 < adv" "buf s \<noteq> []" by (auto simp: MaxScanTokenSize_def)
      with a False sp Some show ?thesis
        by (auto simp: Scan_def)
    qed
  qed
qed

text \<open>
  \<open>NextLine\<close> (lines 87 to 95): the next token that is not empty once trimmed, or the
  empty string when \<open>Scan\<close> finds no further token. Every token found consumes input,
  so the loop ends.
\<close>

function NextLine :: "Scanner \<Rightarrow> string \<times> Scanner" where
  "NextLine s =
    (case Scan s of
       (ok, token, s') \<Rightarrow>
         if ok then
           (let t = TrimSpace token
            in if length t \<noteq> 0 then (t, s') else NextLine s')
         else ([], s'))"
  by pat_completeness auto
termination
  by (relation "measure (\<lambda>s. length (buf s))") (auto dest: Scan_shorter [OF sym])

declare NextLine.simps [simp del]

lemma NextLine_shorter: "NextLine s = (t, s') \<Longrightarrow> t \<noteq> [] \<Longrightarrow> length (buf s') < length (buf s)"
proof (induction s rule: NextLine.induct)
  case (1 s)
  obtain ok token s1 where sc: "Scan s = (ok, token, s1)"
    by (cases "Scan s")
  show ?case
  proof (cases ok)
    case False
    with sc "1.prems" show ?thesis
      by (simp add: NextLine.simps [of s])
  next
    case True
    with sc have sh: "length (buf s1) < length (buf s)"
      by (simp add: Scan_shorter)
    show ?thesis
    proof (cases "length (TrimSpace token) \<noteq> 0")
      case True
      with sc \<open>ok\<close> "1.prems" sh show ?thesis
        by (simp add: NextLine.simps [of s] Let_def)
    next
      case False
      with sc \<open>ok\<close> "1.prems" have "NextLine s1 = (t, s')"
        by (simp add: NextLine.simps [of s] Let_def)
      with "1.IH" [OF sc [symmetric] refl \<open>ok\<close> refl] False "1.prems"(2) sh
      show ?thesis by simp
    qed
  qed
qed

section \<open>Loading the policy (cmd/taoca/policy.go)\<close>

text \<open>
  \<open>LoadPolicy\<close> (lines 23 to 47). \<open>tao.NewACLGuard\<close>, \<open>tao.NewTemporaryDatalogGuard\<close>
  and the method \<open>AddRule\<close> of \<open>tao.Guard\<close> are parameters; \<open>AddRule\<close> gives the
  guard afterwards and the error, if any. \<open>add_rules\<close> is the loop of lines 40 to 45.
  The messages of \<open>fmt.Errorf\<close> are the constructors \<open>FirstLineMissing\<close> (line 36),
  \<open>UnexpectedFirstLine\<close> (line 38, with the path and the token) and \<open>RuleError\<close>
  (line 43, with the path, the error of \<open>AddRule\<close> and the line).
\<close>

function add_rules ::
  "('g \<Rightarrow> string \<Rightarrow> 'g \<times> string option) \<Rightarrow> string \<Rightarrow> 'g \<Rightarrow> Scanner \<Rightarrow> error + 'g" where
  "add_rules addRule path g s =
    (case NextLine s of
       (line, s') \<Rightarrow>
         if line \<noteq> [] then
           (case addRule g line of
              (g', Some e) \<Rightarrow> Inl (RuleError path e line)
            | (g', None) \<Rightarrow> add_rules addRule path g' s')
         else Inr g)"
  by pat_completeness auto
termination
  by (relation "measure (\<lambda>(addRule, path, g, s). length (buf s))") (auto dest: NextLine_shorter [OF sym])

declare add_rules.simps [simp del]

definition LoadPolicy ::
  "(string \<Rightarrow> string + string) \<Rightarrow> 'g \<Rightarrow> 'g \<Rightarrow> ('g \<Rightarrow> string \<Rightarrow> 'g \<times> string option) \<Rightarrow> string
     \<Rightarrow> error + 'g" where
  "LoadPolicy open_file NewACLGuard NewTemporaryDatalogGuard addRule path =
    (case NewScanner open_file path of
       Inl e \<Rightarrow> Inl (LibError e)
     | Inr s \<Rightarrow>
         (case NextLine s of
            (t, s') \<Rightarrow>
              if t = ''acl'' then add_rules addRule path NewACLGuard s'
              else if t = ''datalog'' then add_rules addRule path NewTemporaryDatalogGuard s'
              else if t = [] then Inl (FirstLineMissing path)
              else Inl (UnexpectedFirstLine path t)))"

section \<open>The vocabulary of the properties\<close>

text \<open>
  The six subject fields with the names that \<open>doResponse\<close> passes to \<open>sanitize\<close>, in
  the order of the calls; the message that the check of one field gives when it is made
  alone, empty when the field passes; and the first field, in that order, whose check
  fails.
\<close>

definition subject_fields :: "X509Details \<Rightarrow> (string option \<times> string) list" where
  "subject_fields name =
    [(Country name, ''Country''), (State name, ''State/Province''),
     (City name, ''City/Locality''), (Organization name, ''Organization''),
     (OrganizationalUnit name, ''OrganizationalUnit''), (CommonName name, ''CommonName'')]"

definition field_message :: "string option \<times> string \<Rightarrow> string" where
  "field_message vf = snd (sanitize (fst vf) (snd vf) [])"

definition first_failure :: "X509Details \<Rightarrow> (string option \<times> string) option" where
  "first_failure name = find (\<lambda>vf. field_message vf \<noteq> []) (subject_fields name)"

text \<open>
  What the data model asks of a response: with status \<open>OK\<close> the certificate that the
  signing keys returned, then the issuer's chain, and no detail; with any other status
  no certificate and a detail that is not empty.
\<close>

definition well_formed :: "('g, 'ck, 'k) env \<Rightarrow> Response \<Rightarrow> bool" where
  "well_formed e r =
    (if Status r = TAOCA_OK
     then (\<exists>k t cert. CreateSignedX509 e k t = Inr cert \<and> Cert r = cert # CertChain e)
          \<and> ErrorDetail r = None
     else Cert r = [] \<and> (\<exists>d. ErrorDetail r = Some d \<and> d \<noteq> []))"

text \<open>
  The logical lines that \<open>NextLine\<close> yields from a scanner up to the end-of-input
  sentinel, and the rules of a list fed to \<open>AddRule\<close> one at a time, stopping at the
  first that fails.
\<close>

function lines_of :: "Scanner \<Rightarrow> string list" where
  "lines_of s =
    (case NextLine s of (line, s') \<Rightarrow> if line \<noteq> [] then line # lines_of s' else [])"
  by pat_completeness auto
termination
  by (relation "measure (\<lambda>s. length (buf s))") (auto dest: NextLine_shorter [OF sym])

declare lines_of.simps [simp del]

fun feed_rules ::
  "('g \<Rightarrow> string \<Rightarrow> 'g \<times> string option) \<Rightarrow> string \<Rightarrow> 'g \<Rightarrow> string list \<Rightarrow> error + 'g" where
  "feed_rules addRule path g [] = Inr g"
| "feed_rules addRule path g (line # rest) =
    (case addRule g line of
       (g', Some e) \<Rightarrow> Inl (RuleError path e line)
     | (g', None) \<Rightarrow> feed_rules addRule path g' rest)"

section \<open>An example connection\<close>

text \<open>
  A server in automatic mode whose guard authorizes the principal \<open>P1\<close>, with
  collaborators that all succeed, and a well-formed request of the peer \<open>P1\<close>. The
  properties below are tried on it and on variations of it.
\<close>

definition example_name :: X509Details where
  "example_name =
    \<lparr>CommonName = Some ''svc.example'', Country = Some ''US'', State = Some ''MA'',
     City = Some ''Oakham'', Organization = Some ''Google'',
     OrganizationalUnit = Some ''Eng'', SerialNumber = None\<rparr>"

definition example_request :: "X509Details \<Rightarrow> 32 word \<Rightarrow> Request" where
  "example_request name years =
    \<lparr>ReqCSR = \<lparr>PublicKey = [1, 2, 3], Name = name, Years = years, IsCa = False\<rparr>,
     Signature = None\<rparr>"

definition example_env :: "(unit, unit, unit) env" where
  "example_env =
    \<lparr>ReadMessage = Inr (example_request example_name 1),
     Peer = Some \<lparr>PrinText = ''P1'', Ext = []\<rparr>,
     ProtoUnmarshal = (\<lambda>b. Inr ()),
     UnmarshalVerifierProto = (\<lambda>ck. Inr ()),
     RandRead = Inr 5,
     manualMode = False, Confirm = [], learnMode = False,
     AddRule = (\<lambda>g r. (g, None)),
     IsAuthorized = (\<lambda>g p a args. PrinText p = ''P1''),
     GuardString = (\<lambda>g. ''Eng, *, P1''),
     IsACLGuard = (\<lambda>g. True),
     docurl = ''https://ca/'', docdir = ''/docs'',
     Sum256 = (\<lambda>d. [of_nat (length d)]),
     PathJoin = (\<lambda>dir file. dir @ ''/'' @ file),
     WritePath = (\<lambda>p d. None),
     Marshal = asn1_Marshal,
     CreateSignedX509 = (\<lambda>k t. Inr [7, 7]),
     CertChain = [[8, 8], [9]]\<rparr>"

definition example_globals :: "unit globals" where
  "example_globals = \<lparr>knownHashes = {}, policy = ()\<rparr>"

text \<open>The rule file of the scanner's example in the specification.\<close>

definition example_rules :: string where
  "example_rules =
    ''# comment\<newline>line one'' @ [CHR 0x5C] @ ''\<newline>continued\<newline>\<newline>line two\<newline>''"

section \<open>Properties\<close>

subsection \<open>Serial numbers\<close>

lemma sint_NOT_64: "sint (NOT (s::64 word)) = - sint s - 1"
  using sint_ge [of s] sint_lt [of s]
  by (simp add: signed_not_eq signed_take_bit_int_eq_self_iff not_int_def)

text \<open>
  C9, as the claim states its second half: some 64-bit value is still negative after the
  fold. The code refutes it: the complement of a negative \<open>int64\<close> has its sign bit
  cleared, so no value is negative after the fold.
\<close>

theorem fold_serial_never_negative: "\<not> (\<exists>s. sint (fold_serial s) < 0)"
proof
  assume "\<exists>s. sint (fold_serial s) < 0"
  then obtain s where neg: "sint (fold_serial s) < 0" ..
  show False
  proof (cases "s <s 0")
    case True
    then have "sint (fold_serial s) = - sint s - 1" and "sint s < 0"
      by (simp_all add: fold_serial_def sint_NOT_64 word_sless_alt)
    with neg show False by simp
  next
    case False
    then have "0 \<le> sint (fold_serial s)"
      by (simp add: fold_serial_def word_sless_alt)
    with neg show False by simp
  qed
qed

text \<open>
  C9, amended: a negative serial number is replaced by its bitwise complement, which is
  \<open>- s - 1\<close> and not the absolute value \<open>- s\<close>; a non-negative one is kept; and the
  result is never negative, for every 64-bit value drawn.
\<close>

theorem fold_serial_complement:
  "(s <s 0 \<longrightarrow> fold_serial s = NOT s \<and> sint (fold_serial s) = - sint s - 1
      \<and> sint (fold_serial s) \<noteq> \<bar>sint s\<bar>)
   \<and> (\<not> s <s 0 \<longrightarrow> fold_serial s = s)
   \<and> 0 \<le> sint (fold_serial s) \<and> sint (fold_serial s) < 2 ^ 63"
proof -
  have range: "0 \<le> sint (fold_serial s) \<and> sint (fold_serial s) < 2 ^ 63"
    using sint_ge [of s] sint_lt [of s]
    by (auto simp: fold_serial_def sint_NOT_64 word_sless_alt)
  have neg: "s <s 0 \<longrightarrow> sint (fold_serial s) = - sint s - 1 \<and> sint (fold_serial s) \<noteq> \<bar>sint s\<bar>"
    by (auto simp: fold_serial_def sint_NOT_64 word_sless_alt)
  have keep: "\<not> s <s 0 \<longrightarrow> fold_serial s = s" and flip: "s <s 0 \<longrightarrow> fold_serial s = NOT s"
    by (simp_all add: fold_serial_def)
  show ?thesis
    using range neg keep flip by blast
qed

theorem fold_serial_complement_witness:
  "(- 1 :: 64 word) <s 0 \<and> fold_serial (- 1) = 0 \<and> sint (fold_serial (- 1)) \<noteq> \<bar>sint (- 1 :: 64 word)\<bar>
   \<and> \<not> (5 :: 64 word) <s 0 \<and> fold_serial 5 = 5"
  using fold_serial_complement [of "- 1"] fold_serial_complement [of 5]
  by (simp add: word_sless_alt)

subsection \<open>Sanitizing the subject fields\<close>


lemma snd_sanitize: "snd (sanitize s f m) = (if m \<noteq> [] then m else field_message (s, f))"
  by (auto simp: sanitize_def field_message_def)

lemma check_csr_errmsg:
  "snd (snd (check_csr csr)) =
    (if Years csr \<le>s 0 then ''invalid validity period''
     else case first_failure (Name csr) of None \<Rightarrow> [] | Some vf \<Rightarrow> field_message vf)"
  by (simp add: check_csr_def Let_def split_beta snd_sanitize first_failure_def subject_fields_def)

lemma doResponse_bad_request:
  assumes "ReadMessage e = Inr req" and "snd (snd (check_csr (ReqCSR req))) \<noteq> []"
  shows "doResponse e st =
    ([\<lparr>Status = TAOCA_BAD_REQUEST, ErrorDetail = Some (snd (snd (check_csr (ReqCSR req)))),
       Cert = []\<rparr>], Returned False, st)"
  using assms by (simp add: doResponse_def split_beta doError_def sendResponse_def)



lemma first_failure_Some: "first_failure name = Some vf \<Longrightarrow> field_message vf \<noteq> []"
  by (auto simp: first_failure_def find_Some_iff)

lemma first_failure_absent:
  "Country name = None \<or> State name = None \<or> City name = None \<or> Organization name = None
    \<or> OrganizationalUnit name = None \<or> CommonName name = None \<Longrightarrow> first_failure name \<noteq> None"
  by (auto simp: first_failure_def subject_fields_def field_message_def sanitize_def)

lemma doResponse_detail:
  assumes "ReadMessage e = Inr req"
    and "first_failure (Name (ReqCSR req)) \<noteq> None \<or> Years (ReqCSR req) \<le>s 0"
  shows "doResponse e st =
    ([\<lparr>Status = TAOCA_BAD_REQUEST,
       ErrorDetail = Some (if Years (ReqCSR req) \<le>s 0 then ''invalid validity period''
                           else field_message (the (first_failure (Name (ReqCSR req))))),
       Cert = []\<rparr>], Returned False, st)"
proof -
  let ?m = "snd (snd (check_csr (ReqCSR req)))"
  have m: "?m = (if Years (ReqCSR req) \<le>s 0 then ''invalid validity period''
                 else field_message (the (first_failure (Name (ReqCSR req)))))"
    using assms(2) by (auto simp: check_csr_errmsg)
  have "?m \<noteq> []"
    using assms(2) by (auto simp: check_csr_errmsg dest: first_failure_Some)
  from doResponse_bad_request [OF assms(1) this] show ?thesis
    by (simp only: m)
qed


text \<open>
  C10, amended. A request in which any of the six subject fields is absent is answered
  \<open>BAD_REQUEST\<close>, by one response with a detail that is not empty: no subject field is
  optional. The detail is "missing name." followed by the field's name when the absent
  field is the first field, in check order, whose check fails, and \<open>years\<close> is positive.
\<close>

theorem absent_field_bad_request:
  assumes "ReadMessage e = Inr req"
  shows
   "(Country (Name (ReqCSR req)) = None \<or> State (Name (ReqCSR req)) = None
       \<or> City (Name (ReqCSR req)) = None \<or> Organization (Name (ReqCSR req)) = None
       \<or> OrganizationalUnit (Name (ReqCSR req)) = None \<or> CommonName (Name (ReqCSR req)) = None \<longrightarrow>
       (\<exists>detail. detail \<noteq> [] \<and> doResponse e st =
          ([\<lparr>Status = TAOCA_BAD_REQUEST, ErrorDetail = Some detail, Cert = []\<rparr>],
           Returned False, st)))
    \<and> (\<forall>f. first_failure (Name (ReqCSR req)) = Some (None, f) \<and> \<not> Years (ReqCSR req) \<le>s 0 \<longrightarrow>
         doResponse e st =
           ([\<lparr>Status = TAOCA_BAD_REQUEST, ErrorDetail = Some (''missing name.'' @ f), Cert = []\<rparr>],
            Returned False, st))"
proof (intro conjI allI impI)
  assume "Country (Name (ReqCSR req)) = None \<or> State (Name (ReqCSR req)) = None
       \<or> City (Name (ReqCSR req)) = None \<or> Organization (Name (ReqCSR req)) = None
       \<or> OrganizationalUnit (Name (ReqCSR req)) = None \<or> CommonName (Name (ReqCSR req)) = None"
  then have a: "first_failure (Name (ReqCSR req)) \<noteq> None \<or> Years (ReqCSR req) \<le>s 0"
    using first_failure_absent by blast
  have "(if Years (ReqCSR req) \<le>s 0 then ''invalid validity period''
         else field_message (the (first_failure (Name (ReqCSR req))))) \<noteq> []"
    using a by (auto dest: first_failure_Some)
  with doResponse_detail [OF assms a, of st]
  show "\<exists>detail. detail \<noteq> [] \<and> doResponse e st =
          ([\<lparr>Status = TAOCA_BAD_REQUEST, ErrorDetail = Some detail, Cert = []\<rparr>],
           Returned False, st)"
    by blast
next
  fix f
  assume a: "first_failure (Name (ReqCSR req)) = Some (None, f) \<and> \<not> Years (ReqCSR req) \<le>s 0"
  then have "first_failure (Name (ReqCSR req)) \<noteq> None \<or> Years (ReqCSR req) \<le>s 0"
    by simp
  from doResponse_detail [OF assms this, of st] a
  show "doResponse e st =
           ([\<lparr>Status = TAOCA_BAD_REQUEST, ErrorDetail = Some (''missing name.'' @ f), Cert = []\<rparr>],
            Returned False, st)"
    by (simp add: field_message_def sanitize_def)
qed




theorem absent_field_bad_request_witness:
  "ReadMessage (example_env\<lparr>ReadMessage := Inr (example_request (example_name\<lparr>City := None\<rparr>) 1)\<rparr>)
     = Inr (example_request (example_name\<lparr>City := None\<rparr>) 1)
   \<and> City (example_name\<lparr>City := None\<rparr>) = None
   \<and> first_failure (example_name\<lparr>City := None\<rparr>) = Some (None, ''City/Locality'')
   \<and> \<not> (1 :: 32 word) \<le>s 0
   \<and> doResponse (example_env\<lparr>ReadMessage := Inr (example_request (example_name\<lparr>City := None\<rparr>) 1)\<rparr>)
        example_globals =
       ([\<lparr>Status = TAOCA_BAD_REQUEST, ErrorDetail = Some ''missing name.City/Locality'', Cert = []\<rparr>],
        Returned False, example_globals)"
proof -
  let ?name = "example_name\<lparr>City := None\<rparr>"
  let ?req = "example_request ?name 1"
  let ?e = "example_env\<lparr>ReadMessage := Inr ?req\<rparr>"
  have h1: "ReadMessage ?e = Inr ?req"
    by simp
  have h2: "first_failure ?name = Some (None, ''City/Locality'')"
    by code_simp
  have h3: "\<not> (1 :: 32 word) \<le>s 0"
    by (simp add: word_sle_eq)
  have h4: "Name (ReqCSR ?req) = ?name" "Years (ReqCSR ?req) = 1"
    by (simp_all add: example_request_def)
  from absent_field_bad_request [OF h1, of example_globals]
  have "\<forall>f. first_failure (Name (ReqCSR ?req)) = Some (None, f) \<and> \<not> Years (ReqCSR ?req) \<le>s 0 \<longrightarrow>
         doResponse ?e example_globals =
           ([\<lparr>Status = TAOCA_BAD_REQUEST, ErrorDetail = Some (''missing name.'' @ f), Cert = []\<rparr>],
            Returned False, example_globals)"
    by blast
  with h2 h3 h4
  have "doResponse ?e example_globals =
           ([\<lparr>Status = TAOCA_BAD_REQUEST, ErrorDetail = Some (''missing name.'' @ ''City/Locality''), Cert = []\<rparr>],
            Returned False, example_globals)"
    by simp
  with h1 h2 h3 show ?thesis
    by simp
qed

text \<open>
  C10 as stated fails where a field before the absent one fails its own check: State
  is absent and is the first absent field, Country is present and empty, and the detail
  names Country.
\<close>

theorem absent_field_not_named:
  "State (example_name\<lparr>Country := Some [], State := None\<rparr>) = None
   \<and> Country (example_name\<lparr>Country := Some [], State := None\<rparr>) = Some []
   \<and> doResponse (example_env\<lparr>ReadMessage :=
         Inr (example_request (example_name\<lparr>Country := Some [], State := None\<rparr>) 1)\<rparr>)
        example_globals =
       ([\<lparr>Status = TAOCA_BAD_REQUEST, ErrorDetail = Some ''empty name.Country'', Cert = []\<rparr>],
        Returned False, example_globals)"
  by code_simp

subsection \<open>The responses\<close>

lemma chain_fold:
  "foldl (\<lambda>r parent. r\<lparr>Cert := Cert r @ [parent]\<rparr>) r xs = r\<lparr>Cert := Cert r @ xs\<rparr>"
  by (induction xs arbitrary: r) simp_all

lemma doError_well_formed:
  "list_all (well_formed e) ms \<Longrightarrow> status \<noteq> TAOCA_OK \<Longrightarrow> detail \<noteq> [] \<Longrightarrow>
   list_all (well_formed e) (doError ms err status detail)"
  by (simp add: doError_def sendResponse_def well_formed_def)

lemma issue_well_formed:
  assumes "list_all (well_formed e) ms"
  shows "list_all (well_formed e) (fst (issue e ms csr k serial cps))"
  using assms
  by (auto simp: issue_def Let_def split_beta chain_fold sendResponse_def well_formed_def
        intro!: doError_well_formed split: sum.splits)

lemma approve_well_formed:
  assumes "list_all (well_formed e) ms"
  shows "list_all (well_formed e) (fst (approve e st ms csr k serial))"
  using assms
  by (auto simp: approve_def Let_def split_beta
        intro!: doError_well_formed issue_well_formed split: option.splits)

lemma doResponse_well_formed: "list_all (well_formed e) (fst (doResponse e st))"
  by (auto simp: doResponse_def Let_def split_beta
        intro!: doError_well_formed approve_well_formed split: sum.splits)

text \<open>
  C6. Every response that \<open>doResponse\<close> writes to the connection: with status \<open>OK\<close>
  it carries at least one certificate, the one that the signing keys returned first and
  the issuer's chain after it, and no error detail; with any other status it carries no
  certificate and an error detail that is not empty.
\<close>

theorem response_invariant:
  "\<forall>r \<in> set (fst (doResponse e st)).
     (Status r = TAOCA_OK \<longrightarrow>
        Cert r \<noteq> [] \<and> tl (Cert r) = CertChain e
        \<and> (\<exists>k t. CreateSignedX509 e k t = Inr (hd (Cert r))) \<and> ErrorDetail r = None)
     \<and> (Status r \<noteq> TAOCA_OK \<longrightarrow> Cert r = [] \<and> (\<exists>d. ErrorDetail r = Some d \<and> d \<noteq> []))"
proof
  fix r
  assume "r \<in> set (fst (doResponse e st))"
  with doResponse_well_formed [of e st] have "well_formed e r"
    by (simp add: list_all_iff)
  then show "(Status r = TAOCA_OK \<longrightarrow>
        Cert r \<noteq> [] \<and> tl (Cert r) = CertChain e
        \<and> (\<exists>k t. CreateSignedX509 e k t = Inr (hd (Cert r))) \<and> ErrorDetail r = None)
     \<and> (Status r \<noteq> TAOCA_OK \<longrightarrow> Cert r = [] \<and> (\<exists>d. ErrorDetail r = Some d \<and> d \<noteq> []))"
    unfolding well_formed_def by (cases "Status r = TAOCA_OK") fastforce+
qed


theorem response_invariant_witness:
  "\<lparr>Status = TAOCA_OK, ErrorDetail = None, Cert = [[7, 7], [8, 8], [9]]\<rparr>
     \<in> set (fst (doResponse example_env example_globals))
   \<and> CertChain example_env = [[8, 8], [9]]
   \<and> \<lparr>Status = TAOCA_ERROR, ErrorDetail = Some ''could not generate random serial number'',
       Cert = []\<rparr>
     \<in> set (fst (doResponse (example_env\<lparr>RandRead := Inl ''EOF''\<rparr>) example_globals))"
proof -
  have a: "fst (doResponse example_env example_globals) =
      [\<lparr>Status = TAOCA_OK, ErrorDetail = None, Cert = [[7, 7], [8, 8], [9]]\<rparr>]"
    by code_simp
  have b: "fst (doResponse (example_env\<lparr>RandRead := Inl ''EOF''\<rparr>) example_globals) =
      [\<lparr>Status = TAOCA_ERROR, ErrorDetail = Some ''could not generate random serial number'',
         Cert = []\<rparr>,
       \<lparr>Status = TAOCA_OK, ErrorDetail = None, Cert = [[7, 7], [8, 8], [9]]\<rparr>]"
    by code_simp
  have c: "CertChain example_env = [[8, 8], [9]]"
    by (simp add: example_env_def)
  show ?thesis
    using response_invariant [of example_env example_globals]
      response_invariant [of "example_env\<lparr>RandRead := Inl ''EOF''\<rparr>" example_globals] a b c
    by simp
qed

text \<open>
  C1 at its failing input: the random source fails on a request that is otherwise
  served. The \<open>ERROR\<close> response is sent, and the handler goes on to send a second
  response, here \<open>OK\<close> with the certificates, on the same connection.
\<close>

theorem random_failure_sends_two_responses:
  "doResponse (example_env\<lparr>RandRead := Inl ''EOF''\<rparr>) example_globals =
    ([\<lparr>Status = TAOCA_ERROR, ErrorDetail = Some ''could not generate random serial number'',
       Cert = []\<rparr>,
      \<lparr>Status = TAOCA_OK, ErrorDetail = None, Cert = [[7, 7], [8, 8], [9]]\<rparr>],
     Returned True, example_globals)"
  by code_simp

text \<open>
  C4 at its failing input: writing either document fails, \<open>publish\<close> returns the error
  with an empty URL, and the handler still answers \<open>OK\<close> with the certificates.
\<close>

theorem publish_failure_answers_ok:
  "publish (example_env\<lparr>WritePath := (\<lambda>p d. Some ''disk full'')\<rparr>) (bytes_of cpsTemplate)
     = ([], Some ''disk full'')
   \<and> doResponse (example_env\<lparr>WritePath := (\<lambda>p d. Some ''disk full'')\<rparr>) example_globals =
    ([\<lparr>Status = TAOCA_OK, ErrorDetail = None, Cert = [[7, 7], [8, 8], [9]]\<rparr>],
     Returned True, example_globals)"
  by code_simp

subsection \<open>The certificate-policy extension\<close>

lemma uint_is_length: "uint (x::byte) = int n \<longleftrightarrow> unat x = n"
  using uint_nat [of x] by arith

text \<open>
  C3. For every pair of strings and whatever the marshaller returns:
  \<open>NewCertficationPolicy\<close> fails with the marshaller's error when there is one; it
  fails with its own encoding error when the output is shorter than the UserNotice
  string and two bytes, or the byte two positions before the trailing UserNotice bytes
  is not the PrintableString tag 19, or the byte just before them is not the length of
  the UserNotice string; and otherwise it returns the extension \<open>2.5.29.32\<close>, not
  critical, whose value is the marshaller's output with that one tag byte, 19, replaced
  by the VisibleString tag 26.
\<close>

theorem NewCertficationPolicy_patches_one_tag:
  "(case marshal (policy_info cps unotice) of
      Inl err \<Rightarrow> NewCertficationPolicy marshal cps unotice = Inl (LibError err)
    | Inr out \<Rightarrow>
        if length unotice + 2 \<le> length out
           \<and> out ! (length out - length unotice - 2) = 19
           \<and> unat (out ! (length out - length unotice - 1)) = length unotice
        then NewCertficationPolicy marshal cps unotice =
               Inr \<lparr>Id_oid = [2, 5, 29, 32], Critical = False,
                    Value = take (length out - length unotice - 2) out @ [26]
                              @ drop (length out - length unotice - 1) out\<rparr>
        else NewCertficationPolicy marshal cps unotice =
               Inl (UnexpectedAsn1Encoding (int (length out) - int (length unotice)) out))"
proof (cases "marshal (policy_info cps unotice)")
  case (Inl err)
  then show ?thesis
    by (simp add: NewCertficationPolicy_def)
next
  case (Inr out)
  show ?thesis
  proof (cases "length unotice + 2 \<le> length out")
    case False
    then have "int (length out) - int (length unotice) < 2"
      by linarith
    with Inr False show ?thesis
      by (simp add: NewCertficationPolicy_def Let_def)
  next
    case True
    define k where "k = length out - length unotice - 2"
    with True have k: "length out = k + 2 + length unotice"
      by simp
    have upd: "out[k := 26] = take k out @ 26 # drop (Suc k) out"
      using k by (simp add: upd_conv_take_nth_drop)
    have suc: "nat (1 + int k) = Suc k"
      by simp
    from Inr show ?thesis
      by (simp add: NewCertficationPolicy_def Let_def k upd uint_is_length suc
            asn1PrintableStringTag_def asn1VisibleStringTag_def idCertificatePolicies_def)
  qed
qed

theorem NewCertficationPolicy_patches_one_tag_witness:
  "asn1_Marshal (policy_info ''http://a/b'' ''http://a/c'') =
     Inr [48, 62, 48, 60, 6, 6, 103, 129, 12, 1, 2, 2, 48, 50, 48, 22, 6, 8, 43, 6, 1, 5, 5, 7,
          2, 1, 22, 10, 104, 116, 116, 112, 58, 47, 47, 97, 47, 98, 48, 24, 6, 8, 43, 6, 1, 5,
          5, 7, 2, 2, 48, 12, 19, 10, 104, 116, 116, 112, 58, 47, 47, 97, 47, 99]
   \<and> NewCertficationPolicy asn1_Marshal ''http://a/b'' ''http://a/c'' =
     Inr \<lparr>Id_oid = [2, 5, 29, 32], Critical = False,
          Value =
            [48, 62, 48, 60, 6, 6, 103, 129, 12, 1, 2, 2, 48, 50, 48, 22, 6, 8, 43, 6, 1, 5, 5,
             7, 2, 1, 22, 10, 104, 116, 116, 112, 58, 47, 47, 97, 47, 98, 48, 24, 6, 8, 43, 6,
             1, 5, 5, 7, 2, 2, 48, 12, 26, 10, 104, 116, 116, 112, 58, 47, 47, 97, 47, 99]\<rparr>"
proof -
  have m: "asn1_Marshal (policy_info ''http://a/b'' ''http://a/c'') =
     Inr [48, 62, 48, 60, 6, 6, 103, 129, 12, 1, 2, 2, 48, 50, 48, 22, 6, 8, 43, 6, 1, 5, 5, 7,
          2, 1, 22, 10, 104, 116, 116, 112, 58, 47, 47, 97, 47, 98, 48, 24, 6, 8, 43, 6, 1, 5,
          5, 7, 2, 2, 48, 12, 19, 10, 104, 116, 116, 112, 58, 47, 47, 97, 47, 99]"
    by code_simp
  show ?thesis
    using NewCertficationPolicy_patches_one_tag [of asn1_Marshal "''http://a/b''" "''http://a/c''"]
    by (simp add: m)
qed

subsection \<open>The rule file\<close>

lemma add_rules_feed: "add_rules addRule path g s = feed_rules addRule path g (lines_of s)"
proof (induction addRule path g s rule: add_rules.induct)
  case (1 addRule path g s)
  obtain line s' where nl: "NextLine s = (line, s')"
    by (cases "NextLine s")
  show ?case
  proof (cases "line = []")
    case True
    with nl show ?thesis
      by (simp add: add_rules.simps [of _ _ _ s] lines_of.simps [of s])
  next
    case False
    obtain g' r where ar: "addRule g line = (g', r)"
      by (cases "addRule g line")
    show ?thesis
    proof (cases r)
      case None
      with "1.IH" [OF nl [symmetric] False ar [symmetric]] nl False ar
      show ?thesis
        by (simp add: add_rules.simps [of _ _ _ s] lines_of.simps [of s])
    next
      case (Some e)
      with nl False ar show ?thesis
        by (simp add: add_rules.simps [of _ _ _ s] lines_of.simps [of s])
    qed
  qed
qed

lemma LoadPolicy_lines:
  "LoadPolicy open_file acl dl addRule path =
    (case open_file path of
       Inl e \<Rightarrow> Inl (LibError e)
     | Inr contents \<Rightarrow>
         (case lines_of \<lparr>buf = contents, errSet = False\<rparr> of
            [] \<Rightarrow> Inl (FirstLineMissing path)
          | t # rules \<Rightarrow>
              if t = ''acl'' then feed_rules addRule path acl rules
              else if t = ''datalog'' then feed_rules addRule path dl rules
              else Inl (UnexpectedFirstLine path t)))"
proof (cases "open_file path")
  case (Inl e)
  then show ?thesis
    by (simp add: LoadPolicy_def NewScanner_def)
next
  case (Inr contents)
  obtain t s' where nl: "NextLine \<lparr>buf = contents, errSet = False\<rparr> = (t, s')"
    by (cases "NextLine \<lparr>buf = contents, errSet = False\<rparr>")
  with Inr show ?thesis
    by (simp add: LoadPolicy_def NewScanner_def add_rules_feed
          lines_of.simps [of "\<lparr>buf = contents, errSet = False\<rparr>"])
qed

lemma feed_rules_Inl:
  "feed_rules addRule path g ls = Inl e \<Longrightarrow>
   \<exists>pre line post g0 g1 msg. ls = pre @ line # post \<and> feed_rules addRule path g pre = Inr g0
      \<and> addRule g0 line = (g1, Some msg) \<and> e = RuleError path msg line"
proof (induction ls arbitrary: g)
  case Nil
  then show ?case by simp
next
  case (Cons l ls)
  obtain g' r where ar: "addRule g l = (g', r)"
    by (cases "addRule g l")
  show ?case
  proof (cases r)
    case (Some msg)
    with ar Cons.prems have "e = RuleError path msg l"
      by simp
    with ar Some have "l # ls = [] @ l # ls \<and> feed_rules addRule path g [] = Inr g
      \<and> addRule g l = (g', Some msg) \<and> e = RuleError path msg l"
      by simp
    then show ?thesis by blast
  next
    case None
    with ar Cons.prems have "feed_rules addRule path g' ls = Inl e"
      by simp
    from Cons.IH [OF this] obtain pre line post g0 g1 msg where
      h: "ls = pre @ line # post" "feed_rules addRule path g' pre = Inr g0"
         "addRule g0 line = (g1, Some msg)" "e = RuleError path msg line"
      by blast
    with ar None have "l # ls = (l # pre) @ line # post \<and> feed_rules addRule path g (l # pre) = Inr g0
      \<and> addRule g0 line = (g1, Some msg) \<and> e = RuleError path msg line"
      by simp
    then show ?thesis by blast
  qed
qed

lemma feed_rules_Inr:
  "feed_rules addRule path g ls = Inr g' \<Longrightarrow>
   g' = foldl (\<lambda>h l. fst (addRule h l)) g ls"
proof (induction ls arbitrary: g)
  case Nil
  then show ?case by simp
next
  case (Cons l ls)
  then show ?case
    by (cases "addRule g l") (auto split: option.splits)
qed

lemma Scan_small:
  assumes "\<not> errSet s" and "length (buf s) < MaxScanTokenSize"
  shows "Scan s =
    (case split (buf s) False of
       (advance, Some token) \<Rightarrow> (True, token, s\<lparr>buf := drop advance (buf s)\<rparr>)
     | (advance, None) \<Rightarrow> scan_at_end (buf s))"
  using assms by (simp add: Scan_def split: prod.splits option.splits)

text \<open>
  C8. From the input \<^verbatim>\<open>"# comment\nline one\\\ncontinued\n\nline two\n"\<close> \<open>NextLine\<close>
  yields "line onecontinued", then "line two", then the empty end-of-input sentinel: the
  comment line and the blank line are dropped, and the continuation is joined with
  nothing inserted.
\<close>

theorem scanner_example:
  "NextLine \<lparr>buf = example_rules, errSet = False\<rparr> =
     (''line onecontinued'', \<lparr>buf = ''\<newline>line two\<newline>'', errSet = False\<rparr>)
   \<and> NextLine \<lparr>buf = ''\<newline>line two\<newline>'', errSet = False\<rparr> = (''line two'', \<lparr>buf = [], errSet = False\<rparr>)
   \<and> NextLine \<lparr>buf = [], errSet = False\<rparr> = ([], \<lparr>buf = [], errSet = True\<rparr>)
   \<and> lines_of \<lparr>buf = example_rules, errSet = False\<rparr> = [''line onecontinued'', ''line two'']"
proof -
  define b1 where "b1 = drop 9 example_rules"
  define b2 where "b2 = drop 10 example_rules"
  define b3 where "b3 = ''\<newline>line two\<newline>''"
  define b4 where "b4 = ''line two\<newline>''"
  have small: "length example_rules < MaxScanTokenSize" "length b1 < MaxScanTokenSize"
    "length b2 < MaxScanTokenSize" "length b3 < MaxScanTokenSize" "length b4 < MaxScanTokenSize"
    "length ([] :: string) < MaxScanTokenSize"
    by (simp_all add: example_rules_def b1_def b2_def b3_def b4_def MaxScanTokenSize_def)
  have sp0: "split example_rules False = (9, Some [])"
    by code_simp
  have sp1: "split b1 False = (1, Some [])" and d1: "drop (Suc 0) b1 = b2"
    unfolding b1_def b2_def by code_simp+
  have sp2: "split b2 False = (20, Some ''line onecontinued'')" and d2: "drop 20 b2 = b3"
    unfolding b2_def b3_def by code_simp+
  have sp3: "split b3 False = (1, Some [])" and d3: "drop (Suc 0) b3 = b4"
    unfolding b3_def b4_def by code_simp+
  have sp4: "split b4 False = (9, Some ''line two'')" and d4: "drop 9 b4 = []"
    unfolding b4_def by code_simp+
  have sp5: "split [] False = (0, None)" "split [] True = (0, None)"
    by code_simp+
  have tr: "TrimSpace [] = []" "TrimSpace ''line onecontinued'' = ''line onecontinued''"
    "TrimSpace ''line two'' = ''line two''"
    by code_simp+
  have sc0: "Scan \<lparr>buf = example_rules, errSet = False\<rparr> = (True, [], \<lparr>buf = b1, errSet = False\<rparr>)"
    by (simp add: Scan_small small sp0 b1_def)
  have sc1: "Scan \<lparr>buf = b1, errSet = False\<rparr> = (True, [], \<lparr>buf = b2, errSet = False\<rparr>)"
    by (simp add: Scan_small small sp1 d1)
  have sc2: "Scan \<lparr>buf = b2, errSet = False\<rparr> = (True, ''line onecontinued'', \<lparr>buf = b3, errSet = False\<rparr>)"
    by (simp add: Scan_small small sp2 d2)
  have sc3: "Scan \<lparr>buf = b3, errSet = False\<rparr> = (True, [], \<lparr>buf = b4, errSet = False\<rparr>)"
    by (simp add: Scan_small small sp3 d3)
  have sc4: "Scan \<lparr>buf = b4, errSet = False\<rparr> = (True, ''line two'', \<lparr>buf = [], errSet = False\<rparr>)"
    by (simp add: Scan_small small sp4 d4)
  have sc5: "Scan \<lparr>buf = [], errSet = False\<rparr> = (False, [], \<lparr>buf = [], errSet = True\<rparr>)"
    by (simp add: Scan_def MaxScanTokenSize_def sp5 scan_at_end_def)
  have n2: "NextLine \<lparr>buf = b2, errSet = False\<rparr> = (''line onecontinued'', \<lparr>buf = b3, errSet = False\<rparr>)"
    by (simp add: NextLine.simps [of "\<lparr>buf = b2, errSet = False\<rparr>"] sc2 tr)
  have n1: "NextLine \<lparr>buf = b1, errSet = False\<rparr> = (''line onecontinued'', \<lparr>buf = b3, errSet = False\<rparr>)"
    by (simp add: NextLine.simps [of "\<lparr>buf = b1, errSet = False\<rparr>"] sc1 tr n2)
  have n0: "NextLine \<lparr>buf = example_rules, errSet = False\<rparr> = (''line onecontinued'', \<lparr>buf = b3, errSet = False\<rparr>)"
    by (simp add: NextLine.simps [of "\<lparr>buf = example_rules, errSet = False\<rparr>"] sc0 tr n1)
  have n4: "NextLine \<lparr>buf = b4, errSet = False\<rparr> = (''line two'', \<lparr>buf = [], errSet = False\<rparr>)"
    by (simp add: NextLine.simps [of "\<lparr>buf = b4, errSet = False\<rparr>"] sc4 tr)
  have n3: "NextLine \<lparr>buf = b3, errSet = False\<rparr> = (''line two'', \<lparr>buf = [], errSet = False\<rparr>)"
    by (simp add: NextLine.simps [of "\<lparr>buf = b3, errSet = False\<rparr>"] sc3 tr n4)
  have n5: "NextLine \<lparr>buf = [], errSet = False\<rparr> = ([], \<lparr>buf = [], errSet = True\<rparr>)"
    by (simp add: NextLine.simps [of "\<lparr>buf = [], errSet = False\<rparr>"] sc5)
  have l5: "lines_of \<lparr>buf = [], errSet = False\<rparr> = []"
    by (simp add: lines_of.simps [of "\<lparr>buf = [], errSet = False\<rparr>"] n5)
  have l3: "lines_of \<lparr>buf = b3, errSet = False\<rparr> = [''line two'']"
    by (simp add: lines_of.simps [of "\<lparr>buf = b3, errSet = False\<rparr>"] n3 l5)
  have l0: "lines_of \<lparr>buf = example_rules, errSet = False\<rparr> = [''line onecontinued'', ''line two'']"
    by (simp add: lines_of.simps [of "\<lparr>buf = example_rules, errSet = False\<rparr>"] n0 l3)
  from n0 n3 n5 l0 show ?thesis
    by (simp add: b3_def)
qed

lemma NextLine_end: "NextLine \<lparr>buf = [], errSet = False\<rparr> = ([], \<lparr>buf = [], errSet = True\<rparr>)"
proof -
  have sp: "split [] False = (0, None)" "split [] True = (0, None)"
    by code_simp+
  have "Scan \<lparr>buf = [], errSet = False\<rparr> = (False, [], \<lparr>buf = [], errSet = True\<rparr>)"
    by (simp add: Scan_def MaxScanTokenSize_def sp scan_at_end_def)
  then show ?thesis
    by (simp add: NextLine.simps [of "\<lparr>buf = [], errSet = False\<rparr>"])
qed

lemma lines_of_end: "lines_of \<lparr>buf = [], errSet = False\<rparr> = []"
  by (simp add: lines_of.simps [of "\<lparr>buf = [], errSet = False\<rparr>"] NextLine_end)

lemma lines_of_acl_bad: "lines_of \<lparr>buf = ''acl\<newline>bad\<newline>'', errSet = False\<rparr> = [''acl'', ''bad'']"
proof -
  have sp0: "split ''acl\<newline>bad\<newline>'' False = (4, Some ''acl'')"
    and sp1: "split ''bad\<newline>'' False = (4, Some ''bad'')"
    by code_simp+
  have tr: "TrimSpace ''acl'' = ''acl''" "TrimSpace ''bad'' = ''bad''"
    by code_simp+
  have sc0: "Scan \<lparr>buf = ''acl\<newline>bad\<newline>'', errSet = False\<rparr> = (True, ''acl'', \<lparr>buf = ''bad\<newline>'', errSet = False\<rparr>)"
    by (simp add: Scan_small MaxScanTokenSize_def sp0)
  have sc1: "Scan \<lparr>buf = ''bad\<newline>'', errSet = False\<rparr> = (True, ''bad'', \<lparr>buf = [], errSet = False\<rparr>)"
    by (simp add: Scan_small MaxScanTokenSize_def sp1)
  have n0: "NextLine \<lparr>buf = ''acl\<newline>bad\<newline>'', errSet = False\<rparr> = (''acl'', \<lparr>buf = ''bad\<newline>'', errSet = False\<rparr>)"
    by (simp add: NextLine.simps [of "\<lparr>buf = ''acl\<newline>bad\<newline>'', errSet = False\<rparr>"] sc0 tr)
  have n1: "NextLine \<lparr>buf = ''bad\<newline>'', errSet = False\<rparr> = (''bad'', \<lparr>buf = [], errSet = False\<rparr>)"
    by (simp add: NextLine.simps [of "\<lparr>buf = ''bad\<newline>'', errSet = False\<rparr>"] sc1 tr)
  have l1: "lines_of \<lparr>buf = ''bad\<newline>'', errSet = False\<rparr> = [''bad'']"
    by (simp add: lines_of.simps [of "\<lparr>buf = ''bad\<newline>'', errSet = False\<rparr>"] n1 lines_of_end)
  show ?thesis
    by (simp add: lines_of.simps [of "\<lparr>buf = ''acl\<newline>bad\<newline>'', errSet = False\<rparr>"] n0 l1)
qed

text \<open>
  C7, amended. \<open>LoadPolicy\<close> fails with the error of opening the file; with no
  logical line in the file it fails with the error that the first line must specify
  'datalog' or 'acl', which names no token; with a first logical line other than "acl"
  and "datalog", compared case-sensitively, it fails with the error naming that token;
  otherwise it feeds the remaining logical lines to \<open>AddRule\<close>, and the first failure
  aborts with the error that holds the line and the error of \<open>AddRule\<close>. So a guard is
  returned only when the first logical line is "acl" or "datalog", and it is the new
  guard after every rule was added.
\<close>

theorem LoadPolicy_first_line:
  "LoadPolicy open_file acl dl addRule path =
    (case open_file path of
       Inl e \<Rightarrow> Inl (LibError e)
     | Inr contents \<Rightarrow>
         (case lines_of \<lparr>buf = contents, errSet = False\<rparr> of
            [] \<Rightarrow> Inl (FirstLineMissing path)
          | t # rules \<Rightarrow>
              if t = ''acl'' then feed_rules addRule path acl rules
              else if t = ''datalog'' then feed_rules addRule path dl rules
              else Inl (UnexpectedFirstLine path t)))
   \<and> (\<forall>g. LoadPolicy open_file acl dl addRule path = Inr g \<longrightarrow>
         (\<exists>contents t rules. open_file path = Inr contents
            \<and> lines_of \<lparr>buf = contents, errSet = False\<rparr> = t # rules
            \<and> (t = ''acl'' \<or> t = ''datalog'')))
   \<and> (\<forall>g rules e. feed_rules addRule path g rules = Inl e \<longrightarrow>
         (\<exists>pre line post g0 g1 msg. rules = pre @ line # post
            \<and> feed_rules addRule path g pre = Inr g0
            \<and> addRule g0 line = (g1, Some msg) \<and> e = RuleError path msg line))
   \<and> (\<forall>g rules g'. feed_rules addRule path g rules = Inr g' \<longrightarrow>
         g' = foldl (\<lambda>h l. fst (addRule h l)) g rules)"
proof (intro conjI allI impI)
  show "LoadPolicy open_file acl dl addRule path =
    (case open_file path of
       Inl e \<Rightarrow> Inl (LibError e)
     | Inr contents \<Rightarrow>
         (case lines_of \<lparr>buf = contents, errSet = False\<rparr> of
            [] \<Rightarrow> Inl (FirstLineMissing path)
          | t # rules \<Rightarrow>
              if t = ''acl'' then feed_rules addRule path acl rules
              else if t = ''datalog'' then feed_rules addRule path dl rules
              else Inl (UnexpectedFirstLine path t)))"
    by (rule LoadPolicy_lines)
next
  fix g
  assume "LoadPolicy open_file acl dl addRule path = Inr g"
  then show "\<exists>contents t rules. open_file path = Inr contents
            \<and> lines_of \<lparr>buf = contents, errSet = False\<rparr> = t # rules
            \<and> (t = ''acl'' \<or> t = ''datalog'')"
    by (auto simp: LoadPolicy_lines split: sum.splits list.splits if_splits)
next
  fix g rules e
  assume "feed_rules addRule path g rules = Inl e"
  then show "\<exists>pre line post g0 g1 msg. rules = pre @ line # post
            \<and> feed_rules addRule path g pre = Inr g0
            \<and> addRule g0 line = (g1, Some msg) \<and> e = RuleError path msg line"
    by (rule feed_rules_Inl)
next
  fix g rules g'
  assume "feed_rules addRule path g rules = Inr g'"
  then show "g' = foldl (\<lambda>h l. fst (addRule h l)) g rules"
    by (rule feed_rules_Inr)
qed

theorem LoadPolicy_first_line_witness:
  "LoadPolicy (\<lambda>p. Inr ''acl\<newline>bad\<newline>'') [] [''datalog'']
      (\<lambda>g r. (g @ [r], if r = ''bad'' then Some ''parse error'' else None)) ''policy''
     = Inl (RuleError ''policy'' ''parse error'' ''bad'')
   \<and> LoadPolicy (\<lambda>p. Inr ''acl\<newline>bad\<newline>'') [] [''datalog''] (\<lambda>g r. (g @ [r], None)) ''policy''
     = Inr [''bad'']"
  using LoadPolicy_first_line [of "\<lambda>p. Inr ''acl\<newline>bad\<newline>''" "[]" "[''datalog'']"
      "\<lambda>g r. (g @ [r], if r = ''bad'' then Some ''parse error'' else None)" "''policy''"]
    LoadPolicy_first_line [of "\<lambda>p. Inr ''acl\<newline>bad\<newline>''" "[]" "[''datalog'']"
      "\<lambda>g r. (g @ [r], None)" "''policy''"]
  by (simp add: lines_of_acl_bad)

text \<open>
  C7 as stated fails on the empty file: the error is not the one that names the
  unexpected token.
\<close>

theorem empty_file_names_no_token:
  "LoadPolicy (\<lambda>p. Inr []) [] [''datalog''] (\<lambda>g r. (g @ [r], None)) ''policy''
     = Inl (FirstLineMissing ''policy'')
   \<and> LoadPolicy (\<lambda>p. Inr []) [] [''datalog''] (\<lambda>g r. (g @ [r], None)) ''policy''
     \<noteq> Inl (UnexpectedFirstLine ''policy'' [])"
  by (simp add: LoadPolicy_lines lines_of_end)

end
